theory Spec2Isabelle
  imports Complex_Main "HOL-Library.Word"
begin

section \<open>The stateless programmable switch adapter (shelly\_hap\_stateless\_switch.cpp)\<close>

text \<open>
  The adapter translates raw input events into HomeKit "programmable switch events",
  remembers the last one and answers characteristic reads. The model passes the object's
  state explicitly: every member function takes the \<open>StatelessSwitch\<close> record and
  returns the updated one. Values obtained from the platform (the uptime clock, the fields
  the JSON scanner found, the configuration store's string setter, the IID constants of a
  header outside this file) are parameters of the functions that use them.
\<close>

subsection \<open>Data\<close>

text \<open>\<open>Input::Event\<close>: the five enumerators named by the switch in the event handler.\<close>

datatype Event = kChange | kSingle | kDouble | kLong | kReset

text \<open>
  Modelled from the spec: \<open>enum class InMode\<close> is declared in the header of this class,
  which is not part of the source tree. The spec gives the valid values of \<open>in_mode\<close>
  as 0, 1, 2 and lists the modes in the order Momentary, ToggleShort, ToggleShortLong. The
  configuration stores the mode as a C int and the handler casts it, so the enumerators are
  integer constants here and every other integer is a mode that matches no case.
\<close>

definition kMomentary :: int where "kMomentary = 0"
definition kToggleShort :: int where "kToggleShort = 1"
definition kToggleShortLong :: int where "kToggleShortLong = 2"

text \<open>
  The values of the HomeKit characteristic "Programmable Switch Event"
  (\<open>kHAPCharacteristicValue_ProgrammableSwitchEvent_*\<close>): 0, 1 and 2.
\<close>

definition SinglePress :: "8 word" where "SinglePress = 0"
definition DoublePress :: "8 word" where "DoublePress = 1"
definition LongPress :: "8 word" where "LongPress = 2"

datatype HAPError = kHAPError_None | kHAPError_InvalidState

datatype StatusCode = STATUS_OK | STATUS_INVALID_ARGUMENT

type_synonym Status = "StatusCode \<times> string"

definition Status_OK :: Status where
  "Status_OK = (STATUS_OK, [])"

definition Errorf :: "StatusCode \<Rightarrow> string \<Rightarrow> Status" where
  "Errorf c msg = (c, msg)"

text \<open>
  \<open>struct mgos_config_ssw\<close>: the configuration record, owned by the configuration store.
  \<open>name\<close> is a C string pointer; \<open>GetInfo\<close> tests it against null, so it is optional
  here, \<open>None\<close> being the null pointer.
\<close>

record mgos_config_ssw =
  name :: "string option"
  in_mode :: int

datatype CharType =
    kHAPCharacteristicType_Name
  | kHAPCharacteristicType_ProgrammableSwitchEvent
  | kHAPCharacteristicType_ServiceLabelIndex

text \<open>
  The two kinds of characteristic that \<open>Init\<close> builds, with the constructor arguments it
  passes: IID, type, and either the maximal length and the string or minimum, maximum,
  step and \<open>supports_notification\<close>.
\<close>

datatype Characteristic =
    StringCharacteristic "16 word" CharType nat "string option"
  | UInt8Characteristic "16 word" CharType "8 word" "8 word" "8 word" bool

fun char_iid :: "Characteristic \<Rightarrow> 16 word" where
  "char_iid (StringCharacteristic i _ _ _) = i"
| "char_iid (UInt8Characteristic i _ _ _ _ _) = i"

fun char_type :: "Characteristic \<Rightarrow> CharType" where
  "char_type (StringCharacteristic _ t _ _) = t"
| "char_type (UInt8Characteristic _ t _ _ _ _) = t"

text \<open>
  The object. \<open>comp_id\<close> is \<open>Component::id()\<close>, a C int. \<open>inp\<close> is the pointer to the
  input source (\<open>None\<close> is null; the number only identifies the object). \<open>hap_chars\<close> is
  the vector of characteristic pointers, whose last entry after \<open>Init\<close> is null.
  \<open>subscribed\<close> records that \<open>Init\<close> registered the event handler with the input.
  \<open>raised\<close> is the sequence of characteristics passed to
  \<open>HAPAccessoryServerRaiseEvent\<close> so far: the notifications the server was asked to send.
  The timestamp is a C double of which the code only stores the clock's value and tests
  for zero; it is a real number here.
\<close>

record StatelessSwitch =
  comp_id :: int
  inp :: "nat option"
  cfg :: mgos_config_ssw
  svc_iid :: "16 word"
  hap_chars :: "Characteristic option list"
  subscribed :: bool
  last_ev :: "8 word"
  last_ev_ts :: real
  raised :: "Characteristic option list"

text \<open>
  Modelled from the spec: the member initialisers of \<open>last_ev_\<close> and \<open>last_ev_ts_\<close> are
  in the header, which is not part of the source tree. The spec gives the timestamp 0 for
  "never" and the event value 0 for "none". The rest is the constructor's initialiser list.
\<close>

definition StatelessSwitch_ctor :: "int \<Rightarrow> nat option \<Rightarrow> mgos_config_ssw \<Rightarrow> StatelessSwitch" where
  "StatelessSwitch_ctor i input c =
     \<lparr>comp_id = i, inp = input, cfg = c, svc_iid = 0, hap_chars = [], subscribed = False,
      last_ev = 0, last_ev_ts = 0, raised = []\<rparr>"

subsection \<open>Raising events\<close>

text \<open>
  \<open>hap_chars_[i]\<close>. Reading a vector past its end is undefined in C++; the handler is
  registered by \<open>Init\<close>, after the vector was filled, so the model only has to give some
  value there and gives the null pointer.
\<close>

definition vec_at :: "'a option list \<Rightarrow> nat \<Rightarrow> 'a option" where
  "vec_at xs i = (if i < length xs then xs ! i else None)"

text \<open>
  \<open>RaiseEvent(ev)\<close>; \<open>now\<close> is what \<open>mgos_uptime()\<close> returns during the call. The log
  line is not modelled.
\<close>

definition RaiseEvent :: "real \<Rightarrow> 8 word \<Rightarrow> StatelessSwitch \<Rightarrow> StatelessSwitch" where
  "RaiseEvent now ev s =
     s\<lparr>last_ev := ev, last_ev_ts := now, raised := raised s @ [vec_at (hap_chars s) 1]\<rparr>"

text \<open>\<open>InputEventHandler(ev, state)\<close>: the outer switch on the mode, the inner on the event.\<close>

definition InputEventHandler :: "real \<Rightarrow> Event \<Rightarrow> bool \<Rightarrow> StatelessSwitch \<Rightarrow> StatelessSwitch" where
  "InputEventHandler now ev state s =
     (let m = in_mode (cfg s) in
      if m = kMomentary then
        (case ev of
           kSingle \<Rightarrow> RaiseEvent now SinglePress s
         | kDouble \<Rightarrow> RaiseEvent now DoublePress s
         | kLong \<Rightarrow> RaiseEvent now LongPress s
         | kChange \<Rightarrow> s
         | kReset \<Rightarrow> s)
      else if m = kToggleShort \<or> m = kToggleShortLong then
        (if ev \<noteq> kChange then s
         else if m = kToggleShortLong \<and> \<not> state then RaiseEvent now DoublePress s
         else RaiseEvent now SinglePress s)
      else s)"

subsection \<open>Reading the characteristics\<close>

text \<open>
  A read handler returns the error code and writes the value through the pointer
  \<open>value\<close>; \<open>buf\<close> is what the caller's variable held before, which stays there when
  the handler returns early.
\<close>

definition HandleEventRead :: "StatelessSwitch \<Rightarrow> 8 word \<Rightarrow> HAPError \<times> 8 word" where
  "HandleEventRead s buf =
     (if last_ev_ts s = 0 then (kHAPError_InvalidState, buf)
      else (kHAPError_None, last_ev s))"

text \<open>\<open>*value = id()\<close> converts the int to \<open>uint8_t\<close>, that is modulo 256.\<close>

definition HandleServiceLabelIndexRead :: "StatelessSwitch \<Rightarrow> 8 word \<Rightarrow> HAPError \<times> 8 word" where
  "HandleServiceLabelIndexRead s buf = (kHAPError_None, word_of_int (comp_id s))"

subsection \<open>Init\<close>

text \<open>
  \<open>IID_BASE\<close> and \<open>IID_STEP\<close> stand for the macros \<open>IID_BASE_STATELESS_SWITCH\<close> and
  \<open>IID_STEP_STATELESS_SWITCH\<close>, defined in a header outside this file. The sum is
  computed on C ints and converted to \<open>uint16_t\<close>, that is modulo 65536, and each
  \<open>iid++\<close> wraps in 16 bits as well. Registering the handler with the input source is
  recorded in \<open>subscribed\<close>.
\<close>

definition Init :: "int \<Rightarrow> int \<Rightarrow> StatelessSwitch \<Rightarrow> Status \<times> StatelessSwitch" where
  "Init IID_BASE IID_STEP s =
     (if inp s = None then (Errorf STATUS_INVALID_ARGUMENT ''input is required'', s)
      else
        let id1 = comp_id s - 1;
            iid = (word_of_int (IID_BASE + IID_STEP * id1) :: 16 word);
            name_char = StringCharacteristic (iid + 1) kHAPCharacteristicType_Name 64
                          (name (cfg s));
            ev_char = UInt8Characteristic (iid + 2)
                        kHAPCharacteristicType_ProgrammableSwitchEvent 0 2 1 True;
            sli_char = UInt8Characteristic (iid + 3)
                         kHAPCharacteristicType_ServiceLabelIndex 1 255 1 False
        in (Status_OK,
            s\<lparr>svc_iid := iid,
              hap_chars := hap_chars s @ [Some name_char, Some ev_char, Some sli_char, None],
              subscribed := True\<rparr>))"

text \<open>The IIDs of an adapter: the service's, then those of its characteristics.\<close>

definition iids :: "StatelessSwitch \<Rightarrow> 16 word list" where
  "iids s = svc_iid s # map char_iid (List.map_filter (\<lambda>c. c) (hap_chars s))"

subsection \<open>SetConfig\<close>

text \<open>
  What \<open>json_scanf\<close> finds in the payload for the format \<open>{name: %Q, in_mode: %d}\<close>:
  each of the two fields is delivered or left alone. The scanner itself belongs to a
  library outside this file.
\<close>

record config_json =
  json_name :: "string option"
  json_in_mode :: "int option"

text \<open>
  \<open>SetConfig(config_json, restart_required)\<close>. The argument \<open>restart_required\<close> is what
  the caller's variable held before the call; the result carries the status, the variable's
  content afterwards and the object. \<open>mgos_conf_set_str\<close> is the configuration store's
  setter, outside this file: it gives the stored pointer for the string it was handed.
  \<open>strcmp\<close> on a null stored name is undefined in C; the result is \<open>None\<close> there.
\<close>

definition SetConfig ::
  "(string \<Rightarrow> string option) \<Rightarrow> config_json \<Rightarrow> bool \<Rightarrow> StatelessSwitch
     \<Rightarrow> (Status \<times> bool \<times> StatelessSwitch) option" where
  "SetConfig mgos_conf_set_str j restart_required s =
     (let name' = json_name j;
          in_mode' = (case json_in_mode j of None \<Rightarrow> - 1 | Some v \<Rightarrow> v);
          restart_required' = False
      in
      if (case name' of None \<Rightarrow> False | Some n \<Rightarrow> length n > 64) then
        Some (Errorf STATUS_INVALID_ARGUMENT ''invalid name (too long, max 64)'',
              restart_required', s)
      else if in_mode' < 0 \<or> in_mode' > 2 then
        Some (Errorf STATUS_INVALID_ARGUMENT ''invalid in_mode'', restart_required', s)
      else
        (case name' of
           None \<Rightarrow>
             Some (Status_OK, restart_required', s\<lparr>cfg := (cfg s)\<lparr>in_mode := in_mode'\<rparr>\<rparr>)
         | Some n \<Rightarrow>
             (case name (cfg s) of
                None \<Rightarrow> None
              | Some stored \<Rightarrow>
                  if n \<noteq> stored then
                    Some (Status_OK, True,
                          s\<lparr>cfg := (cfg s)\<lparr>name := mgos_conf_set_str n, in_mode := in_mode'\<rparr>\<rparr>)
                  else
                    Some (Status_OK, restart_required',
                          s\<lparr>cfg := (cfg s)\<lparr>in_mode := in_mode'\<rparr>\<rparr>))))"

subsection \<open>Histories of calls\<close>

text \<open>
  The calls that change the object or its configuration record: \<open>Init\<close>, \<open>SetConfig\<close>,
  the input source delivering an event, and the configuration store writing the record it
  owns. \<open>exec_all\<close> runs a history of them; it stops with \<open>None\<close> where a call is
  undefined. The reads change nothing and are left out.
\<close>

datatype Call =
    Call_Init int int
  | Call_SetConfig config_json bool
  | Call_Input real Event bool
  | Call_Store mgos_config_ssw

fun exec :: "(string \<Rightarrow> string option) \<Rightarrow> Call \<Rightarrow> StatelessSwitch \<Rightarrow> StatelessSwitch option" where
  "exec f (Call_Init b st) s = Some (snd (Init b st s))"
| "exec f (Call_SetConfig j rr) s = map_option (\<lambda>r. snd (snd r)) (SetConfig f j rr s)"
| "exec f (Call_Input now ev state) s = Some (InputEventHandler now ev state s)"
| "exec f (Call_Store c) s = Some (s\<lparr>cfg := c\<rparr>)"

fun exec_all :: "(string \<Rightarrow> string option) \<Rightarrow> Call list \<Rightarrow> StatelessSwitch \<Rightarrow> StatelessSwitch option" where
  "exec_all f [] s = Some s"
| "exec_all f (c # cs) s = (case exec f c s of None \<Rightarrow> None | Some s' \<Rightarrow> exec_all f cs s')"

subsection \<open>Example objects\<close>

text \<open>The first switch of a device, with its input attached, in a given mode.\<close>

definition ssw1 :: "int \<Rightarrow> StatelessSwitch" where
  "ssw1 m = StatelessSwitch_ctor 1 (Some 0) \<lparr>name = Some ''SSW1'', in_mode = m\<rparr>"


section \<open>Properties\<close>

lemmas mode_defs = kMomentary_def kToggleShort_def kToggleShortLong_def

lemmas press_defs = SinglePress_def DoublePress_def LongPress_def

subsection \<open>Translation of input events\<close>

text \<open>
  C1. In Momentary mode a raw single, double or long press raises SinglePress, DoublePress
  or LongPress; in ToggleShort mode a raw change raises SinglePress; in ToggleShortLong
  mode a raw change raises DoublePress when the new state is false and SinglePress when it
  is true. Raising an event stores its value and the clock reading and asks the server for
  exactly one more notification.
\<close>

theorem InputEventHandler_table:
  "(in_mode (cfg s) = kMomentary \<longrightarrow>
      InputEventHandler now kSingle st s = RaiseEvent now SinglePress s \<and>
      InputEventHandler now kDouble st s = RaiseEvent now DoublePress s \<and>
      InputEventHandler now kLong st s = RaiseEvent now LongPress s) \<and>
   (in_mode (cfg s) = kToggleShort \<longrightarrow>
      InputEventHandler now kChange st s = RaiseEvent now SinglePress s) \<and>
   (in_mode (cfg s) = kToggleShortLong \<longrightarrow>
      InputEventHandler now kChange False s = RaiseEvent now DoublePress s \<and>
      InputEventHandler now kChange True s = RaiseEvent now SinglePress s) \<and>
   last_ev (RaiseEvent now v s) = v \<and>
   last_ev_ts (RaiseEvent now v s) = now \<and>
   raised (RaiseEvent now v s) = raised s @ [vec_at (hap_chars s) 1]"
  by (simp add: InputEventHandler_def RaiseEvent_def mode_defs)

theorem InputEventHandler_table_witness:
  "in_mode (cfg (ssw1 0)) = kMomentary \<and>
   last_ev (InputEventHandler 5 kLong False (ssw1 0)) = LongPress \<and>
   in_mode (cfg (ssw1 1)) = kToggleShort \<and>
   last_ev (InputEventHandler 5 kChange False (ssw1 1)) = SinglePress \<and>
   in_mode (cfg (ssw1 2)) = kToggleShortLong \<and>
   last_ev (InputEventHandler 5 kChange False (ssw1 2)) = DoublePress \<and>
   raised (InputEventHandler 5 kChange False (ssw1 2)) = [None]"
  using InputEventHandler_table [of "ssw1 0" 5 False LongPress]
        InputEventHandler_table [of "ssw1 1" 5 False SinglePress]
        InputEventHandler_table [of "ssw1 2" 5 False DoublePress]
  by (simp add: ssw1_def StatelessSwitch_ctor_def mode_defs vec_at_def)

text \<open>
  Every combination of mode, event and state is either a row of the table or one of the
  combinations that C4 names.
\<close>

lemma table_or_ignored:
  "(in_mode (cfg s) = kMomentary \<and> (ev = kSingle \<or> ev = kDouble \<or> ev = kLong)) \<or>
   ((in_mode (cfg s) = kToggleShort \<or> in_mode (cfg s) = kToggleShortLong) \<and> ev = kChange) \<or>
   (in_mode (cfg s) = kMomentary \<and> (ev = kChange \<or> ev = kReset)) \<or>
   ((in_mode (cfg s) = kToggleShort \<or> in_mode (cfg s) = kToggleShortLong) \<and> ev \<noteq> kChange) \<or>
   in_mode (cfg s) \<notin> {kMomentary, kToggleShort, kToggleShortLong}"
  by (cases ev) auto

text \<open>
  C4. In Momentary mode with a change or reset event, in either toggle mode with an event
  other than change, and with a stored mode that is none of the three, the handler returns
  the object as it was: no event, no notification, the last event and its timestamp
  unchanged.
\<close>

theorem InputEventHandler_ignores:
  assumes "(in_mode (cfg s) = kMomentary \<and> (ev = kChange \<or> ev = kReset)) \<or>
           ((in_mode (cfg s) = kToggleShort \<or> in_mode (cfg s) = kToggleShortLong) \<and> ev \<noteq> kChange) \<or>
           in_mode (cfg s) \<notin> {kMomentary, kToggleShort, kToggleShortLong}"
  shows "InputEventHandler now ev st s = s \<and>
         raised (InputEventHandler now ev st s) = raised s \<and>
         last_ev (InputEventHandler now ev st s) = last_ev s \<and>
         last_ev_ts (InputEventHandler now ev st s) = last_ev_ts s"
proof -
  have "InputEventHandler now ev st s = s"
    using assms by (cases ev) (auto simp: InputEventHandler_def mode_defs)
  then show ?thesis by simp
qed

theorem InputEventHandler_ignores_witness:
  "InputEventHandler 5 kReset True (ssw1 0) = ssw1 0 \<and>
   InputEventHandler 5 kSingle True (ssw1 1) = ssw1 1 \<and>
   InputEventHandler 5 kLong False (ssw1 2) = ssw1 2 \<and>
   InputEventHandler 5 kChange False (ssw1 7) = ssw1 7"
  using InputEventHandler_ignores [of "ssw1 0" kReset 5 True]
        InputEventHandler_ignores [of "ssw1 1" kSingle 5 True]
        InputEventHandler_ignores [of "ssw1 2" kLong 5 False]
        InputEventHandler_ignores [of "ssw1 7" kChange 5 False]
  by (simp add: ssw1_def StatelessSwitch_ctor_def mode_defs)

subsection \<open>SetConfig\<close>

text \<open>
  With a valid mode and a name that is absent, or short while the stored name is not null,
  the call returns OK.
\<close>

lemma SetConfig_returns_OK:
  assumes "json_in_mode j = Some m" and "0 \<le> m" and "m \<le> 2"
    and "json_name j = None \<or> (\<exists>n. json_name j = Some n \<and> length n \<le> 64 \<and> name (cfg s) \<noteq> None)"
  shows "\<exists>rr s'. SetConfig f j rr0 s = Some (Status_OK, rr, s')"
  using assms by (auto simp: SetConfig_def)

text \<open>
  C3. When the payload has no \<open>in_mode\<close> or one outside 0, 1, 2, \<open>SetConfig\<close> returns
  InvalidArgument and the object, with its configuration record, is as before; this
  includes a payload with a valid name only.
\<close>

theorem SetConfig_rejects_in_mode:
  assumes "json_in_mode j = None \<or> (\<exists>v. json_in_mode j = Some v \<and> v \<notin> {0, 1, 2})"
  shows "SetConfig f j rr0 s =
           Some (Errorf STATUS_INVALID_ARGUMENT
                   (if (\<exists>n. json_name j = Some n \<and> length n > 64)
                    then ''invalid name (too long, max 64)'' else ''invalid in_mode''),
                 False, s)"
proof (cases "json_in_mode j")
  case None
  then show ?thesis
    by (cases "json_name j") (simp_all add: SetConfig_def)
next
  case (Some v)
  with assms have "v < 0 \<or> v > 2" by auto
  with Some show ?thesis
    by (cases "json_name j") (auto simp: SetConfig_def)
qed

theorem SetConfig_rejects_in_mode_witness:
  "SetConfig Some \<lparr>json_name = Some ''Hall'', json_in_mode = None\<rparr> True (ssw1 1) =
     Some (Errorf STATUS_INVALID_ARGUMENT ''invalid in_mode'', False, ssw1 1) \<and>
   SetConfig Some \<lparr>json_name = None, json_in_mode = Some 3\<rparr> True (ssw1 1) =
     Some (Errorf STATUS_INVALID_ARGUMENT ''invalid in_mode'', False, ssw1 1)"
  using SetConfig_rejects_in_mode [of "\<lparr>json_name = Some ''Hall'', json_in_mode = None\<rparr>" Some True "ssw1 1"]
        SetConfig_rejects_in_mode [of "\<lparr>json_name = None, json_in_mode = Some 3\<rparr>" Some True "ssw1 1"]
  by simp

text \<open>
  C6. When the payload has a name longer than 64 characters, \<open>SetConfig\<close> returns
  InvalidArgument and the object, with its configuration record, is as before.
\<close>

theorem SetConfig_rejects_long_name:
  assumes "json_name j = Some n" and "length n > 64"
  shows "SetConfig f j rr0 s =
           Some (Errorf STATUS_INVALID_ARGUMENT ''invalid name (too long, max 64)'', False, s)"
  using assms by (simp add: SetConfig_def)

theorem SetConfig_rejects_long_name_witness:
  "length (replicate 65 CHR ''a'') > 64 \<and>
   SetConfig Some \<lparr>json_name = Some (replicate 65 CHR ''a''), json_in_mode = Some 1\<rparr> True (ssw1 0) =
     Some (Errorf STATUS_INVALID_ARGUMENT ''invalid name (too long, max 64)'', False, ssw1 0)"
  using SetConfig_rejects_long_name
          [of "\<lparr>json_name = Some (replicate 65 CHR ''a''), json_in_mode = Some 1\<rparr>"
              "replicate 65 CHR ''a''" Some True "ssw1 0"]
  by simp

text \<open>
  C5. When \<open>SetConfig\<close> returns OK: a supplied name that differs from the stored one is
  handed to the store's setter and \<open>restart_required\<close> is true; with no name or the stored
  name, \<open>restart_required\<close> is false and the stored name stays; and the stored mode is the
  supplied one, which is 0, 1 or 2.
\<close>

theorem SetConfig_OK_effects:
  assumes "SetConfig f j rr0 s = Some (st, rr, s')" and "fst st = STATUS_OK"
  shows "(\<forall>n. json_name j = Some n \<and> name (cfg s) \<noteq> Some n \<longrightarrow>
             name (cfg s') = f n \<and> rr) \<and>
         (json_name j = None \<or> json_name j = name (cfg s) \<longrightarrow>
             \<not> rr \<and> name (cfg s') = name (cfg s)) \<and>
         json_in_mode j = Some (in_mode (cfg s')) \<and>
         in_mode (cfg s') \<in> {0, 1, 2}"
proof -
  from assms obtain m where m: "json_in_mode j = Some m" "0 \<le> m" "m \<le> 2"
    by (cases "json_in_mode j")
       (auto simp: SetConfig_def Errorf_def Let_def split: option.splits if_splits)
  have range: "m \<in> {0, 1, 2}" using m by auto
  show ?thesis
  proof (cases "json_name j")
    case None
    with assms m range show ?thesis
      by (auto simp: SetConfig_def)
  next
    case (Some n)
    with assms m range show ?thesis
      by (auto simp: SetConfig_def Errorf_def Let_def split: option.splits if_splits)
  qed
qed

theorem SetConfig_OK_effects_witness:
  "SetConfig Some \<lparr>json_name = Some ''Hall'', json_in_mode = Some 2\<rparr> False (ssw1 0) =
     Some (Status_OK, True, (ssw1 0)\<lparr>cfg := \<lparr>name = Some ''Hall'', in_mode = 2\<rparr>\<rparr>) \<and>
   SetConfig Some \<lparr>json_name = Some ''SSW1'', json_in_mode = Some 2\<rparr> True (ssw1 0) =
     Some (Status_OK, False, (ssw1 0)\<lparr>cfg := \<lparr>name = Some ''SSW1'', in_mode = 2\<rparr>\<rparr>) \<and>
   name (cfg ((ssw1 0)\<lparr>cfg := \<lparr>name = Some ''Hall'', in_mode = 2\<rparr>\<rparr>)) = Some ''Hall'' \<and>
   in_mode (cfg ((ssw1 0)\<lparr>cfg := \<lparr>name = Some ''SSW1'', in_mode = 2\<rparr>\<rparr>)) \<in> {0, 1, 2}"
proof -
  have a: "SetConfig Some \<lparr>json_name = Some ''Hall'', json_in_mode = Some 2\<rparr> False (ssw1 0) =
     Some (Status_OK, True, (ssw1 0)\<lparr>cfg := \<lparr>name = Some ''Hall'', in_mode = 2\<rparr>\<rparr>)"
    by (simp add: SetConfig_def ssw1_def StatelessSwitch_ctor_def)
  have b: "SetConfig Some \<lparr>json_name = Some ''SSW1'', json_in_mode = Some 2\<rparr> True (ssw1 0) =
     Some (Status_OK, False, (ssw1 0)\<lparr>cfg := \<lparr>name = Some ''SSW1'', in_mode = 2\<rparr>\<rparr>)"
    by (simp add: SetConfig_def ssw1_def StatelessSwitch_ctor_def)
  have ok: "fst Status_OK = STATUS_OK" by (simp add: Status_OK_def)
  show ?thesis
    using SetConfig_OK_effects [OF a ok] SetConfig_OK_effects [OF b ok] a b
    by simp
qed

text \<open>
  C9. \<open>SetConfig\<close> overwrites \<open>restart_required\<close> whatever it held: the result does not
  depend on the old content. When the name is too long or the mode absent or out of range
  the call returns InvalidArgument with \<open>restart_required\<close> false, and every return
  with a status other than OK has it false.
\<close>

theorem SetConfig_restart_required_on_error:
  "SetConfig f j True s = SetConfig f j False s \<and>
   ((\<exists>n. json_name j = Some n \<and> length n > 64) \<or> json_in_mode j = None \<or>
    (\<exists>v. json_in_mode j = Some v \<and> (v < 0 \<or> v > 2)) \<longrightarrow>
      (\<exists>msg. SetConfig f j rr0 s = Some (Errorf STATUS_INVALID_ARGUMENT msg, False, s))) \<and>
   (\<forall>st rr s'. SetConfig f j rr0 s = Some (st, rr, s') \<and> fst st \<noteq> STATUS_OK \<longrightarrow> \<not> rr)"
proof (intro conjI impI allI)
  show "SetConfig f j True s = SetConfig f j False s"
    by (simp add: SetConfig_def)
next
  assume "(\<exists>n. json_name j = Some n \<and> length n > 64) \<or> json_in_mode j = None \<or>
          (\<exists>v. json_in_mode j = Some v \<and> (v < 0 \<or> v > 2))"
  then show "\<exists>msg. SetConfig f j rr0 s = Some (Errorf STATUS_INVALID_ARGUMENT msg, False, s)"
    by (cases "json_name j"; cases "json_in_mode j") (auto simp: SetConfig_def Let_def)
next
  fix st rr s'
  assume "SetConfig f j rr0 s = Some (st, rr, s') \<and> fst st \<noteq> STATUS_OK"
  then show "\<not> rr"
    by (auto simp: SetConfig_def Status_OK_def Let_def split: option.splits if_splits)
qed

theorem SetConfig_restart_required_on_error_witness:
  "SetConfig Some \<lparr>json_name = Some ''Hall'', json_in_mode = Some 5\<rparr> True (ssw1 0) =
     Some (Errorf STATUS_INVALID_ARGUMENT ''invalid in_mode'', False, ssw1 0) \<and>
   fst (Errorf STATUS_INVALID_ARGUMENT ''invalid in_mode'') \<noteq> STATUS_OK"
proof -
  have a: "SetConfig Some \<lparr>json_name = Some ''Hall'', json_in_mode = Some 5\<rparr> True (ssw1 0) =
     Some (Errorf STATUS_INVALID_ARGUMENT ''invalid in_mode'', False, ssw1 0)"
    by (simp add: SetConfig_def)
  have b: "fst (Errorf STATUS_INVALID_ARGUMENT ''invalid in_mode'') \<noteq> STATUS_OK"
    by (simp add: Errorf_def)
  from SetConfig_restart_required_on_error
         [of Some "\<lparr>json_name = Some ''Hall'', json_in_mode = Some 5\<rparr>" "ssw1 0" True]
  have "\<forall>st rr s'. SetConfig Some \<lparr>json_name = Some ''Hall'', json_in_mode = Some 5\<rparr> True (ssw1 0)
            = Some (st, rr, s') \<and> fst st \<noteq> STATUS_OK \<longrightarrow> \<not> rr"
    by blast
  with a b show ?thesis by simp
qed

subsection \<open>What a call leaves alone\<close>

lemma InputEventHandler_cases:
  "InputEventHandler now ev st s = s \<or>
   (\<exists>v \<in> {SinglePress, DoublePress, LongPress}. InputEventHandler now ev st s = RaiseEvent now v s)"
  by (cases ev) (auto simp: InputEventHandler_def Let_def)

lemma Init_frame:
  "comp_id (snd (Init b st s)) = comp_id s \<and> last_ev (snd (Init b st s)) = last_ev s \<and>
   last_ev_ts (snd (Init b st s)) = last_ev_ts s \<and> raised (snd (Init b st s)) = raised s"
  by (simp add: Init_def Let_def)

lemma SetConfig_frame:
  assumes "SetConfig f j rr0 s = Some (st, rr, s')"
  shows "comp_id s' = comp_id s \<and> last_ev s' = last_ev s \<and>
         last_ev_ts s' = last_ev_ts s \<and> raised s' = raised s"
  using assms by (auto simp: SetConfig_def Let_def split: option.splits if_splits)

text \<open>
  \<open>raised\<close> grows by one entry with every \<open>RaiseEvent\<close> call and is touched by nothing
  else, so its length counts the events raised so far. A call that leaves the length alone
  leaves the last event and its timestamp alone; a call that changes the last event sets
  it to one of the three switch events; no call changes the identity.
\<close>

lemma exec_frame:
  assumes "exec f c s = Some s'"
  shows "comp_id s' = comp_id s \<and> length (raised s) \<le> length (raised s') \<and>
         (length (raised s') = length (raised s) \<longrightarrow>
            last_ev s' = last_ev s \<and> last_ev_ts s' = last_ev_ts s) \<and>
         (last_ev s' = last_ev s \<or> last_ev s' \<in> {SinglePress, DoublePress, LongPress})"
proof (cases c)
  case (Call_Init b st)
  with assms show ?thesis using Init_frame [of b st s] by auto
next
  case (Call_SetConfig j rr)
  with assms obtain r where "SetConfig f j rr s = Some r" and "s' = snd (snd r)" by auto
  then show ?thesis using SetConfig_frame [of f j rr s "fst r" "fst (snd r)" s'] by simp
next
  case (Call_Input now ev st)
  with assms have s': "s' = InputEventHandler now ev st s" by simp
  from InputEventHandler_cases [of now ev st s] show ?thesis
    unfolding s' by (auto simp: RaiseEvent_def)
next
  case (Call_Store c')
  with assms show ?thesis by auto
qed

text \<open>
  A call that changes \<open>raised\<close> is an input event for which the handler called
  \<open>RaiseEvent\<close>.
\<close>

lemma exec_raised:
  assumes "exec f c s = Some s'"
  shows "raised s' = raised s \<or> (\<exists>now v. s' = RaiseEvent now v s)"
proof (cases c)
  case (Call_Init b st)
  with assms show ?thesis using Init_frame [of b st s] by auto
next
  case (Call_SetConfig j rr)
  with assms obtain r where "SetConfig f j rr s = Some r" and "s' = snd (snd r)" by auto
  then show ?thesis using SetConfig_frame [of f j rr s "fst r" "fst (snd r)" s'] by simp
next
  case (Call_Input now ev st)
  with assms have "s' = InputEventHandler now ev st s" by simp
  with InputEventHandler_cases [of now ev st s] show ?thesis by auto
next
  case (Call_Store c')
  with assms show ?thesis by auto
qed

lemma exec_all_frame:
  assumes "exec_all f cs s = Some s'"
  shows "comp_id s' = comp_id s \<and> length (raised s) \<le> length (raised s') \<and>
         (length (raised s') = length (raised s) \<longrightarrow>
            last_ev s' = last_ev s \<and> last_ev_ts s' = last_ev_ts s) \<and>
         (last_ev s' = last_ev s \<or> last_ev s' \<in> {SinglePress, DoublePress, LongPress})"
  using assms
proof (induction cs arbitrary: s)
  case Nil
  then show ?case by simp
next
  case (Cons c cs)
  then obtain t where t: "exec f c s = Some t" and rest: "exec_all f cs t = Some s'"
    by (auto split: option.splits)
  from exec_frame [OF t] Cons.IH [OF rest] show ?case by auto
qed

subsection \<open>Reading the event characteristic\<close>



text \<open>
  The condition on the clock is exactly what the read depends on: right after
  \<open>RaiseEvent(v)\<close> the read gives \<open>v\<close> if and only if the reading stored was not zero.
\<close>

lemma HandleEventRead_after_RaiseEvent_iff:
  "HandleEventRead (RaiseEvent now v s) buf = (kHAPError_None, v) \<longleftrightarrow> now \<noteq> 0"
  by (simp add: HandleEventRead_def RaiseEvent_def)


subsection \<open>The range of the last event\<close>

text \<open>
  C10. The input-event handler keeps the last event among SinglePress, DoublePress and
  LongPress, that is 0, 1 and 2, and so it is after every history of calls on a new object,
  in whatever mode the configuration is during each of them.
\<close>

theorem last_ev_in_range:
  "(last_ev s \<in> {SinglePress, DoublePress, LongPress} \<longrightarrow>
      last_ev (InputEventHandler now ev st s) \<in> {SinglePress, DoublePress, LongPress}) \<and>
   (exec_all f cs (StatelessSwitch_ctor i input c) = Some s' \<longrightarrow>
      last_ev s' \<in> {SinglePress, DoublePress, LongPress} \<and> unat (last_ev s') \<le> 2)"
proof (intro conjI impI)
  assume "last_ev s \<in> {SinglePress, DoublePress, LongPress}"
  with InputEventHandler_cases [of now ev st s]
  show "last_ev (InputEventHandler now ev st s) \<in> {SinglePress, DoublePress, LongPress}"
    by (auto simp: RaiseEvent_def)
next
  assume a: "exec_all f cs (StatelessSwitch_ctor i input c) = Some s'"
  have "last_ev (StatelessSwitch_ctor i input c) = SinglePress"
    by (simp add: StatelessSwitch_ctor_def SinglePress_def)
  with exec_all_frame [OF a] show "last_ev s' \<in> {SinglePress, DoublePress, LongPress}"
    by auto
  then show "unat (last_ev s') \<le> 2"
    by (auto simp: press_defs)
qed

theorem last_ev_in_range_witness:
  "last_ev (ssw1 2) \<in> {SinglePress, DoublePress, LongPress} \<and>
   last_ev (InputEventHandler 5 kChange False (ssw1 2)) \<in> {SinglePress, DoublePress, LongPress} \<and>
   exec_all Some [Call_Input 5 kLong False, Call_Store \<lparr>name = None, in_mode = 9\<rparr>,
                  Call_Input 6 kChange True]
     (StatelessSwitch_ctor 1 (Some 0) \<lparr>name = Some ''SSW1'', in_mode = 0\<rparr>)
     = Some ((RaiseEvent 5 LongPress (ssw1 0))\<lparr>cfg := \<lparr>name = None, in_mode = 9\<rparr>\<rparr>) \<and>
   unat (last_ev ((RaiseEvent 5 LongPress (ssw1 0))\<lparr>cfg := \<lparr>name = None, in_mode = 9\<rparr>\<rparr>)) \<le> 2"
proof -
  let ?s = "(RaiseEvent 5 LongPress (ssw1 0))\<lparr>cfg := \<lparr>name = None, in_mode = 9\<rparr>\<rparr>"
  have a: "last_ev (ssw1 2) \<in> {SinglePress, DoublePress, LongPress}"
    by (simp add: ssw1_def StatelessSwitch_ctor_def press_defs)
  have b: "exec_all Some [Call_Input 5 kLong False, Call_Store \<lparr>name = None, in_mode = 9\<rparr>,
                          Call_Input 6 kChange True]
             (StatelessSwitch_ctor 1 (Some 0) \<lparr>name = Some ''SSW1'', in_mode = 0\<rparr>) = Some ?s"
    by (simp add: ssw1_def StatelessSwitch_ctor_def InputEventHandler_def RaiseEvent_def mode_defs)
  from last_ev_in_range
         [of "ssw1 2" 5 kChange False Some
             "[Call_Input 5 kLong False, Call_Store \<lparr>name = None, in_mode = 9\<rparr>,
               Call_Input 6 kChange True]" 1 "Some 0" "\<lparr>name = Some ''SSW1'', in_mode = 0\<rparr>" ?s]
  have c: "(last_ev (ssw1 2) \<in> {SinglePress, DoublePress, LongPress} \<longrightarrow>
              last_ev (InputEventHandler 5 kChange False (ssw1 2))
                \<in> {SinglePress, DoublePress, LongPress}) \<and>
           (exec_all Some [Call_Input 5 kLong False, Call_Store \<lparr>name = None, in_mode = 9\<rparr>,
                           Call_Input 6 kChange True]
              (StatelessSwitch_ctor 1 (Some 0) \<lparr>name = Some ''SSW1'', in_mode = 0\<rparr>) = Some ?s \<longrightarrow>
              last_ev ?s \<in> {SinglePress, DoublePress, LongPress} \<and> unat (last_ev ?s) \<le> 2)" .
  from c a have d: "last_ev (InputEventHandler 5 kChange False (ssw1 2))
                      \<in> {SinglePress, DoublePress, LongPress}" by blast
  from c b have e: "unat (last_ev ?s) \<le> 2" by blast
  from a b d e show ?thesis by blast
qed

subsection \<open>Reading the service label index\<close>

text \<open>
  C8, as the code has it. Reading the service label index succeeds with the identity
  converted to an unsigned byte, that is the identity modulo 256, which is the identity
  itself when that lies between 0 and 255. The result depends on nothing else: not on the
  caller's variable, and not on any history of calls (events raised, configuration
  changed) the object went through.
\<close>

theorem HandleServiceLabelIndexRead_id:
  "HandleServiceLabelIndexRead s buf = (kHAPError_None, word_of_int (comp_id s)) \<and>
   uint (snd (HandleServiceLabelIndexRead s buf)) = comp_id s mod 256 \<and>
   (0 \<le> comp_id s \<and> comp_id s \<le> 255 \<longrightarrow>
      uint (snd (HandleServiceLabelIndexRead s buf)) = comp_id s) \<and>
   (exec_all f cs s = Some s' \<longrightarrow>
      HandleServiceLabelIndexRead s' buf' = HandleServiceLabelIndexRead s buf)"
proof (intro conjI impI)
  show "HandleServiceLabelIndexRead s buf = (kHAPError_None, word_of_int (comp_id s))"
    by (simp add: HandleServiceLabelIndexRead_def)
  show m: "uint (snd (HandleServiceLabelIndexRead s buf)) = comp_id s mod 256"
    by (simp add: HandleServiceLabelIndexRead_def uint_word_of_int)
  show "uint (snd (HandleServiceLabelIndexRead s buf)) = comp_id s"
    if "0 \<le> comp_id s \<and> comp_id s \<le> 255"
    using that m by simp
  show "HandleServiceLabelIndexRead s' buf' = HandleServiceLabelIndexRead s buf"
    if "exec_all f cs s = Some s'"
    using exec_all_frame [OF that] by (simp add: HandleServiceLabelIndexRead_def)
qed

theorem HandleServiceLabelIndexRead_id_witness:
  "(0::int) \<le> comp_id (ssw1 0) \<and> comp_id (ssw1 0) \<le> 255 \<and>
   uint (snd (HandleServiceLabelIndexRead (ssw1 0) 7)) = 1 \<and>
   exec_all Some [Call_Input 5 kDouble False, Call_Store \<lparr>name = None, in_mode = 2\<rparr>] (ssw1 0)
     = Some ((RaiseEvent 5 DoublePress (ssw1 0))\<lparr>cfg := \<lparr>name = None, in_mode = 2\<rparr>\<rparr>) \<and>
   HandleServiceLabelIndexRead
     ((RaiseEvent 5 DoublePress (ssw1 0))\<lparr>cfg := \<lparr>name = None, in_mode = 2\<rparr>\<rparr>) 9
     = (kHAPError_None, 1)"
proof -
  let ?s = "(RaiseEvent 5 DoublePress (ssw1 0))\<lparr>cfg := \<lparr>name = None, in_mode = 2\<rparr>\<rparr>"
  let ?cs = "[Call_Input 5 kDouble False, Call_Store \<lparr>name = None, in_mode = 2\<rparr>]"
  have id: "comp_id (ssw1 0) = 1"
    by (simp add: ssw1_def StatelessSwitch_ctor_def)
  have run: "exec_all Some ?cs (ssw1 0) = Some ?s"
    by (simp add: ssw1_def StatelessSwitch_ctor_def InputEventHandler_def mode_defs)
  from HandleServiceLabelIndexRead_id [of "ssw1 0" 7 Some ?cs ?s 9] id
  have a: "uint (snd (HandleServiceLabelIndexRead (ssw1 0) 7)) = 1"
    by simp
  from HandleServiceLabelIndexRead_id [of "ssw1 0" 7 Some ?cs ?s 9] run id
  have b: "HandleServiceLabelIndexRead ?s 9 = (kHAPError_None, 1)"
    by simp
  from id run a b show ?thesis by simp
qed

text \<open>
  Without the range of the identity the statement fails: the adapter with identity 256,
  which does not fit a byte, reports the index 0.
\<close>

theorem HandleServiceLabelIndexRead_counterexample:
  "HandleServiceLabelIndexRead
     (StatelessSwitch_ctor 256 (Some 0) \<lparr>name = Some ''SSW256'', in_mode = 0\<rparr>) 7
     = (kHAPError_None, 0) \<and>
   uint (snd (HandleServiceLabelIndexRead
     (StatelessSwitch_ctor 256 (Some 0) \<lparr>name = Some ''SSW256'', in_mode = 0\<rparr>) 7)) \<noteq> 256"
  by (simp add: HandleServiceLabelIndexRead_def StatelessSwitch_ctor_def)

subsection \<open>Allocation of IIDs\<close>

text \<open>Without an input source \<open>Init\<close> fails and changes nothing.\<close>

lemma Init_requires_input:
  "inp s = None \<Longrightarrow> Init BASE STEP s = (Errorf STATUS_INVALID_ARGUMENT ''input is required'', s)"
  by (simp add: Init_def)

lemma uint_word16_in_range:
  "0 \<le> k \<Longrightarrow> k < 65536 \<Longrightarrow> uint (word_of_int k :: 16 word) = k"
  by (simp add: uint_word_of_int)

lemma uint_word16_offsets:
  assumes "0 \<le> v" and "v \<le> 65532"
  shows "map uint [word_of_int v, word_of_int v + 1, word_of_int v + 2, word_of_int v + (3 :: 16 word)] =
           [v, v + 1, v + 2, v + 3]"
  using assms by (simp add: uint_word_ariths uint_word16_in_range)

lemma word16_succ_distinct:
  "distinct [w, w + 1, w + 2, w + (3 :: 16 word)]"
  by simp

text \<open>
  C7, as the code has it. On a new adapter with an input source, \<open>Init\<close> returns OK; the
  service IID is \<open>BASE + STEP * (id - 1)\<close> converted to 16 bits, the characteristics are
  name, event and service label index in this order with the three following 16-bit
  values, and the four IIDs are distinct and a function of the identity alone. When
  \<open>BASE + STEP * (id - 1)\<close> lies between 0 and 65532, the four IIDs are that number and
  the next three integers.
\<close>

theorem Init_iids:
  "fst (Init BASE STEP (StatelessSwitch_ctor i (Some p) c)) = Status_OK \<and>
   iids (snd (Init BASE STEP (StatelessSwitch_ctor i (Some p) c))) =
     [word_of_int (BASE + STEP * (i - 1)), word_of_int (BASE + STEP * (i - 1)) + 1,
      word_of_int (BASE + STEP * (i - 1)) + 2, word_of_int (BASE + STEP * (i - 1)) + 3] \<and>
   map (map_option char_type) (hap_chars (snd (Init BASE STEP (StatelessSwitch_ctor i (Some p) c)))) =
     [Some kHAPCharacteristicType_Name, Some kHAPCharacteristicType_ProgrammableSwitchEvent,
      Some kHAPCharacteristicType_ServiceLabelIndex, None] \<and>
   distinct (iids (snd (Init BASE STEP (StatelessSwitch_ctor i (Some p) c)))) \<and>
   iids (snd (Init BASE STEP (StatelessSwitch_ctor i (Some p') c'))) =
     iids (snd (Init BASE STEP (StatelessSwitch_ctor i (Some p) c))) \<and>
   (0 \<le> BASE + STEP * (i - 1) \<and> BASE + STEP * (i - 1) \<le> 65532 \<longrightarrow>
      map uint (iids (snd (Init BASE STEP (StatelessSwitch_ctor i (Some p) c)))) =
        [BASE + STEP * (i - 1), BASE + STEP * (i - 1) + 1,
         BASE + STEP * (i - 1) + 2, BASE + STEP * (i - 1) + 3])"
proof -
  let ?v = "BASE + STEP * (i - 1)"
  let ?w = "word_of_int ?v :: 16 word"
  have ids: "iids (snd (Init BASE STEP (StatelessSwitch_ctor i (Some q) d))) =
               [?w, ?w + 1, ?w + 2, ?w + 3]" for q d
    by (simp add: Init_def StatelessSwitch_ctor_def iids_def List.map_filter_simps Let_def)
  have ok: "fst (Init BASE STEP (StatelessSwitch_ctor i (Some p) c)) = Status_OK"
    by (simp add: Init_def StatelessSwitch_ctor_def Let_def)
  have types: "map (map_option char_type)
                 (hap_chars (snd (Init BASE STEP (StatelessSwitch_ctor i (Some p) c)))) =
     [Some kHAPCharacteristicType_Name, Some kHAPCharacteristicType_ProgrammableSwitchEvent,
      Some kHAPCharacteristicType_ServiceLabelIndex, None]"
    by (simp add: Init_def StatelessSwitch_ctor_def Let_def)
  have dist: "distinct [?w, ?w + 1, ?w + 2, ?w + 3]"
    by (rule word16_succ_distinct)
  have vals: "map uint [?w, ?w + 1, ?w + 2, ?w + 3] = [?v, ?v + 1, ?v + 2, ?v + 3]"
    if r: "0 \<le> ?v \<and> ?v \<le> 65532"
    using r by (intro uint_word16_offsets) simp_all
  show ?thesis
    using ok types dist vals by (simp only: ids) blast
qed

theorem Init_iids_witness:
  "(0::int) \<le> 1024 + 4 * (3 - 1) \<and> (1024::int) + 4 * (3 - 1) \<le> 65532 \<and>
   map uint (iids (snd (Init 1024 4
       (StatelessSwitch_ctor 3 (Some 0) \<lparr>name = Some ''SSW3'', in_mode = 0\<rparr>)))) =
     [1032, 1033, 1034, 1035]"
  using Init_iids [of 1024 4 3 0 "\<lparr>name = Some ''SSW3'', in_mode = 0\<rparr>" 0
                      "\<lparr>name = Some ''SSW3'', in_mode = 0\<rparr>"]
  by simp

text \<open>
  Without the range the statement fails, namely where the sum does not fit 16 bits. With
  a base that is not negative and a positive step, the identity 70000 is such a case
  whatever the two constants are; with base 1024 and step 4 the service IID is 18876.
\<close>

lemma Init_iid_wraps:
  assumes "0 \<le> BASE" and "1 \<le> STEP"
  shows "uint (svc_iid (snd (Init BASE STEP (StatelessSwitch_ctor 70000 (Some p) c)))) \<noteq>
           BASE + STEP * (70000 - 1)"
proof -
  have "uint (svc_iid (snd (Init BASE STEP (StatelessSwitch_ctor 70000 (Some p) c)))) < 65536"
    using uint_lt2p [of "svc_iid (snd (Init BASE STEP (StatelessSwitch_ctor 70000 (Some p) c)))"]
    by simp
  moreover have "STEP * 69999 \<ge> 1 * 69999"
    using assms by (intro mult_right_mono) simp_all
  then have "65536 \<le> BASE + STEP * (70000 - 1)"
    using assms by simp
  ultimately show ?thesis by linarith
qed

theorem Init_iids_counterexample:
  "uint (svc_iid (snd (Init 1024 4
      (StatelessSwitch_ctor 70000 (Some 0) \<lparr>name = Some ''SSW'', in_mode = 0\<rparr>)))) = 18876 \<and>
   uint (svc_iid (snd (Init 1024 4
      (StatelessSwitch_ctor 70000 (Some 0) \<lparr>name = Some ''SSW'', in_mode = 0\<rparr>)))) \<noteq>
     1024 + 4 * (70000 - 1)"
  by (simp add: Init_def StatelessSwitch_ctor_def Let_def uint_word_of_int)

end
